theory Spec2Isabelle
  imports Main "HOL-Library.Sublist" "HOL-Library.Word"
begin

section \<open>JavaScript values\<close>

text \<open>
  The plugin \<^verbatim>\<open>src/plugins/ui-html5.js\<close> builds HTML text from schema objects, option
  objects and default data.  The values it handles are modelled by \<open>jsval\<close>: the
  primitives and plain objects.  The numbers of the model are the integers from
  \<open>- 2 ^ 53\<close> up to \<open>2 ^ 53 - 1\<close>, kept as 54-bit words read as signed: each of them is
  a JavaScript number, and JavaScript prints it in plain decimal.  Other numbers
  (fractions, \<^verbatim>\<open>NaN\<close>, the infinities, larger magnitudes) are outside the model.  An
  object is the list of its own enumerable properties in
  enumeration order, which is insertion order for the property names used here (names
  that are not array indices).  Property reads look at own properties only, so the model
  covers property names that do not collide with members of \<^verbatim>\<open>Object.prototype\<close>.
\<close>

datatype jsval =
    JUndefined
  | JNull
  | JBool bool
  | JNum "54 word"
  | JStr string
  | JObj "(string \<times> jsval) list"

type_synonym jsobj = "(string \<times> jsval) list"

text \<open>What a \<^verbatim>\<open>throw\<close> carries: the two built-in errors the engine raises by itself
  (reading a property of \<^verbatim>\<open>undefined\<close>/\<^verbatim>\<open>null\<close>; resolving an undeclared
  identifier, named in the payload) and \<^verbatim>\<open>new Error(message)\<close>.\<close>

datatype error =
    TypeError
  | ReferenceError string
  | Error string

text \<open>The decimal digits of a natural number, and the text of a number of the model:
  its decimal digits, after a minus sign when it is negative.\<close>

fun decimal :: "nat \<Rightarrow> string" where
  "decimal n =
     (if n < 10 then [''0123456789'' ! n]
      else decimal (n div 10) @ [''0123456789'' ! (n mod 10)])"

declare decimal.simps [simp del]

definition number_toString :: "54 word \<Rightarrow> string" where
  "number_toString n =
     (if sint n < 0 then ''-'' @ decimal (nat (- sint n)) else decimal (nat (sint n)))"

text \<open>The text a template literal \<^verbatim>\<open>${v}\<close> inserts, which is also what
  \<^verbatim>\<open>v.toString()\<close> returns where that call is defined.\<close>

fun toString :: "jsval \<Rightarrow> string" where
  "toString JUndefined = ''undefined''"
| "toString JNull = ''null''"
| "toString (JBool b) = (if b then ''true'' else ''false'')"
| "toString (JNum n) = number_toString n"
| "toString (JStr s) = s"
| "toString (JObj ps) = ''[object Object]''"

text \<open>Truthiness, as tested by \<^verbatim>\<open>if (v)\<close>.\<close>

fun truthy :: "jsval \<Rightarrow> bool" where
  "truthy JUndefined = False"
| "truthy JNull = False"
| "truthy (JBool b) = b"
| "truthy (JNum n) = (n \<noteq> 0)"
| "truthy (JStr s) = (s \<noteq> [])"
| "truthy (JObj ps) = True"

text \<open>\<^verbatim>\<open>a === b\<close>.  Primitives are compared by type and value.  Objects are compared
  by identity, which the model does not have: an object operand makes the comparison
  false, so the model covers calls in which an enumerated value and the default value
  are not one and the same object.\<close>

fun strict_eq :: "jsval \<Rightarrow> jsval \<Rightarrow> bool" where
  "strict_eq (JObj ps) b = False"
| "strict_eq a (JObj qs) = False"
| "strict_eq a b = (a = b)"

text \<open>\<^verbatim>\<open>obj[key] = value\<close>: an existing property keeps its position, a new one is
  appended.\<close>

fun set_prop :: "jsobj \<Rightarrow> string \<Rightarrow> jsval \<Rightarrow> jsobj" where
  "set_prop [] key v = [(key, v)]"
| "set_prop (p # ps) key v = (if fst p = key then (key, v) # ps else p # set_prop ps key v)"

text \<open>\<^verbatim>\<open>v[key]\<close>: a \<^verbatim>\<open>TypeError\<close> on \<^verbatim>\<open>undefined\<close> and \<^verbatim>\<open>null\<close>, the property or
  \<^verbatim>\<open>undefined\<close> otherwise.\<close>

fun get_prop :: "jsval \<Rightarrow> string \<Rightarrow> error + jsval" where
  "get_prop JUndefined key = Inl TypeError"
| "get_prop JNull key = Inl TypeError"
| "get_prop (JObj ps) key = Inr (case map_of ps key of None \<Rightarrow> JUndefined | Some v \<Rightarrow> v)"
| "get_prop v key = Inr JUndefined"

text \<open>lodash's \<^verbatim>\<open>_.get(object, key)\<close> for a key that is a plain property name: the
  property, and \<^verbatim>\<open>undefined\<close> where the object is missing or has no such property.\<close>

fun lodash_get :: "jsval \<Rightarrow> string \<Rightarrow> jsval" where
  "lodash_get (JObj ps) key = (case map_of ps key of None \<Rightarrow> JUndefined | Some v \<Rightarrow> v)"
| "lodash_get v key = JUndefined"

text \<open>\<^verbatim>\<open>Object.assign(target, ...sources)\<close>: every own property of every source, in
  order, is set on the target; a source that is \<^verbatim>\<open>undefined\<close> is skipped.\<close>

definition assign_one :: "jsobj \<Rightarrow> jsobj option \<Rightarrow> jsobj" where
  "assign_one target source =
     (case source of
        None \<Rightarrow> target
      | Some ps \<Rightarrow> foldl (\<lambda>t p. set_prop t (fst p) (snd p)) target ps)"

definition object_assign :: "jsobj \<Rightarrow> jsobj option list \<Rightarrow> jsobj" where
  "object_assign target sources = foldl assign_one target sources"

text \<open>lodash's \<^verbatim>\<open>_.omit(props, ignoreProps)\<close> for a single property name or
  \<^verbatim>\<open>undefined\<close>.\<close>

definition omit :: "jsobj \<Rightarrow> string option \<Rightarrow> jsobj" where
  "omit props ignoreProps =
     (case ignoreProps of
        None \<Rightarrow> props
      | Some key \<Rightarrow> filter (\<lambda>p. fst p \<noteq> key) props)"

section \<open>Types, fields and schemas\<close>

text \<open>
  Modelled from the spec: the data types, fields and schemas of the host framework
  (\<^verbatim>\<open>../types\<close>, \<^verbatim>\<open>../schemas\<close>), which the plugin reads and which are not part of
  the plugin's source.  A data type carries its name, its \<^verbatim>\<open>jsType\<close>, the
  \<^verbatim>\<open>htmlSpec\<close> trait set by \<^verbatim>\<open>defineHtmlType\<close>, its enumerated values (a value and
  a label each) if it declares any, and the \<^verbatim>\<open>getHtml\<close> behaviour that
  \<^verbatim>\<open>OmniSchema.mixin\<close> installed on it, if any: one of the two \<^verbatim>\<open>onType\<close> functions
  of the plugin, the input behaviour for a type whose \<^verbatim>\<open>htmlSpec.elementName\<close> is
  \<^verbatim>\<open>'input'\<close> and the enumeration behaviour, registered later, for a type that declares
  \<^verbatim>\<open>enumValues\<close>.
\<close>

record enum_value =
  ev_value :: jsval
  ev_label :: string

datatype behavior = InputBehavior | EnumValuesBehavior

record omni_type =
  type_name :: string
  jsType :: string
  htmlSpec :: "jsobj option"
  enumValues :: "enum_value list option"
  getHtml :: "behavior option"

text \<open>
  Modelled from the spec: a field has a name, a label, a type that is a data type or
  another schema, the required flag, the exclusion flag and the hint
  \<^verbatim>\<open>ui.presentation\<close> (\<open>JUndefined\<close> when there is none).  A schema has its
  collection name and its members by name, in declaration order.  A member need not be
  a field: the plugin tests \<^verbatim>\<open>field instanceof OmniSchema.OmniField\<close>.
\<close>

datatype omni_field =
  OmniField (name: string) (label: string) (ftype: field_type)
    (isRequired: bool) (uiExclude: bool) (ui_presentation: jsval)
and field_type =
    DataType omni_type
  | Schema omni_schema
and omni_schema =
  OmniSchema (collectionName: string) (members: "(string \<times> schema_member) list")
and schema_member =
    FieldMember omni_field
  | OtherMember

text \<open>Modelled from the spec: the host's \<^verbatim>\<open>getFieldList\<close>, the ordered listing of the
  member names, and \<^verbatim>\<open>getField\<close>, the lookup of a member by name.\<close>

definition getFieldList :: "omni_schema \<Rightarrow> string list" where
  "getFieldList schema = map fst (members schema)"

definition getField :: "omni_schema \<Rightarrow> string \<Rightarrow> schema_member option" where
  "getField schema fieldName = map_of (members schema) fieldName"

text \<open>\<^verbatim>\<open>field.type.jsType\<close> and \<^verbatim>\<open>field.type.enumValues\<close>; a schema object has
  neither property.\<close>

fun type_jsType :: "field_type \<Rightarrow> jsval" where
  "type_jsType (DataType dt) = JStr (jsType dt)"
| "type_jsType (Schema s) = JUndefined"

fun type_enumValues :: "field_type \<Rightarrow> enum_value list option" where
  "type_enumValues (DataType dt) = enumValues dt"
| "type_enumValues (Schema s) = None"

section \<open>The plugin\<close>

subsection \<open>Attribute strings\<close>

definition getPropsAsAttributeString :: "jsobj option \<Rightarrow> string option \<Rightarrow> string" where
  \<open>getPropsAsAttributeString props ignoreProps =
     (case props of
        None \<Rightarrow> '' ''
      | Some ps \<Rightarrow>
          foldl (\<lambda>attribs p. attribs @ '' '' @ fst p @ ''="'' @ toString (snd p) @ ''"'')
            [] (omit ps ignoreProps))\<close>

text \<open>The marker every renderer writes for a required field; the select renderer writes
  it without the trailing blank.\<close>

definition required_marker :: string where
  \<open>required_marker = ''required="required"''\<close>

subsection \<open>Renderers of enumerations\<close>

text \<open>lodash's \<^verbatim>\<open>_.forEach\<close> over \<^verbatim>\<open>dt.enumValues\<close> visits nothing when the property
  is \<^verbatim>\<open>undefined\<close>; the callbacks return nothing, so it never stops early.
  \<open>select_option\<close> and \<open>radio_input\<close> are the texts one round of the callbacks of
  \<^verbatim>\<open>getEnumAsSelect\<close> and \<^verbatim>\<open>getEnumAsRadio\<close> append for an enumerated value (the
  radio callback appends the label after the input), \<open>radio_mergedProps\<close> and
  \<open>checkbox_mergedProps\<close> the local \<^verbatim>\<open>mergedProps\<close> of the radio and checkbox
  renderers.\<close>

definition forEach_enumValues :: "enum_value list option \<Rightarrow> enum_value list" where
  "forEach_enumValues evs = (case evs of None \<Rightarrow> [] | Some xs \<Rightarrow> xs)"

definition strDefault :: "jsval \<Rightarrow> jsval" where
  "strDefault defaultValue =
     (if defaultValue \<noteq> JUndefined \<and> defaultValue \<noteq> JNull
      then JStr (toString defaultValue) else JUndefined)"

definition select_option :: "jsval \<Rightarrow> enum_value \<Rightarrow> string" where
  \<open>select_option defaultValue ev =
     ''  <option value="'' @ toString (ev_value ev) @ ''" ''
       @ (if strict_eq (ev_value ev) (strDefault defaultValue) then ''selected'' else '''')
       @ ''>'' @ ev_label ev @ ''</option>\<newline>''\<close>

definition getEnumAsSelect :: "omni_field \<Rightarrow> jsobj \<Rightarrow> jsval \<Rightarrow> string \<Rightarrow> string" where
  \<open>getEnumAsSelect field controlProps defaultValue fieldNamePrefix =
     (let code = ''<select size="1" name="'' @ fieldNamePrefix @ name field @ ''" ''
                   @ (if isRequired field then required_marker else '''') @ ''>\<newline>'';
          code = foldl (\<lambda>code ev. code @ select_option defaultValue ev) code
                   (forEach_enumValues (type_enumValues (ftype field)))
      in code @ ''</select>\<newline>'')\<close>

definition radio_mergedProps :: "jsobj \<Rightarrow> jsval \<Rightarrow> enum_value \<Rightarrow> jsobj" where
  "radio_mergedProps controlProps defaultValue ev =
     (let mergedProps = object_assign [] [Some controlProps, Some [(''type'', JStr ''radio'')]]
      in if strict_eq (ev_value ev) defaultValue
         then set_prop mergedProps ''checked'' (JBool True) else mergedProps)"

definition radio_input :: "omni_field \<Rightarrow> jsobj \<Rightarrow> jsval \<Rightarrow> string \<Rightarrow> enum_value \<Rightarrow> string" where
  \<open>radio_input field controlProps defaultValue fieldNamePrefix ev =
     ''<input''
       @ getPropsAsAttributeString (Some (radio_mergedProps controlProps defaultValue ev))
           (Some ''elementName'')
       @ '' '' @ (if isRequired field then required_marker @ '' '' else '''')
       @ ''name="'' @ fieldNamePrefix @ name field @ ''" value="'' @ toString (ev_value ev)
       @ ''" />''\<close>

definition getEnumAsRadio :: "omni_field \<Rightarrow> jsobj \<Rightarrow> jsval \<Rightarrow> string \<Rightarrow> string" where
  \<open>getEnumAsRadio field controlProps defaultValue fieldNamePrefix =
     foldl (\<lambda>code ev.
              (code @ radio_input field controlProps defaultValue fieldNamePrefix ev)
                @ ''&nbsp;'' @ ev_label ev @ ''<br/>\<newline>'')
       [] (forEach_enumValues (type_enumValues (ftype field)))\<close>

definition checkbox_mergedProps :: "jsobj \<Rightarrow> jsval \<Rightarrow> jsobj" where
  "checkbox_mergedProps controlProps defaultValue =
     (let mergedProps = object_assign [] [Some controlProps, Some [(''type'', JStr ''checkbox'')]]
      in if truthy defaultValue
         then set_prop mergedProps ''checked'' (JBool True) else mergedProps)"


subsection \<open>Type behaviours\<close>

text \<open>
  The behaviour installed on types whose \<^verbatim>\<open>htmlSpec.elementName\<close> is \<^verbatim>\<open>'input'\<close>.
  The function assigns to the \<^verbatim>\<open>controlProps\<close> object it was given, so the model
  returns that object as it stands after the call, next to the text:
  \<open>input_controlProps\<close> is the object after the first statement,
  \<open>input_mergedProps\<close> the local \<^verbatim>\<open>mergedProps\<close>.
\<close>

definition input_controlProps :: "jsobj \<Rightarrow> jsval \<Rightarrow> jsobj" where
  "input_controlProps controlProps defaultValue =
     (if defaultValue \<noteq> JUndefined then set_prop controlProps ''value'' defaultValue
      else controlProps)"

definition input_mergedProps :: "omni_type \<Rightarrow> jsobj \<Rightarrow> jsval \<Rightarrow> jsobj" where
  "input_mergedProps this controlProps defaultValue =
     object_assign [] [htmlSpec this, Some (input_controlProps controlProps defaultValue)]"

definition input_getHtml ::
    "omni_type \<Rightarrow> omni_field \<Rightarrow> jsobj \<Rightarrow> jsval \<Rightarrow> string \<Rightarrow> string \<times> jsobj" where
  \<open>input_getHtml this field controlProps defaultValue fieldNamePrefix =
     (''<input''
        @ getPropsAsAttributeString (Some (input_mergedProps this controlProps defaultValue))
            (Some ''elementName'')
        @ '' '' @ (if isRequired field then required_marker @ '' '' else '''')
        @ ''name="'' @ fieldNamePrefix @ name field @ ''" />'',
      input_controlProps controlProps defaultValue)\<close>

text \<open>
  The behaviour installed on types that declare \<^verbatim>\<open>enumValues\<close>.  Each renderer gets
  \<^verbatim>\<open>Object.assign({}, this.htmlSpec, controlProps)\<close>, here \<open>enum_mergedProps\<close>.
  The \<^verbatim>\<open>'checkbox'\<close> case calls \<^verbatim>\<open>getBoolAsCheckbox\<close>, an identifier that the module
  declares nowhere (the checkbox renderer is named \<^verbatim>\<open>getEnumAsCheckbox\<close>): resolving
  it throws a \<^verbatim>\<open>ReferenceError\<close>.
\<close>

definition enum_mergedProps :: "omni_type \<Rightarrow> jsobj \<Rightarrow> jsobj" where
  "enum_mergedProps this controlProps = object_assign [] [htmlSpec this, Some controlProps]"

definition enum_getHtml ::
    "omni_type \<Rightarrow> omni_field \<Rightarrow> jsobj \<Rightarrow> jsval \<Rightarrow> string \<Rightarrow> error + string" where
  "enum_getHtml this field controlProps defaultValue fieldNamePrefix =
     (let presentation = ui_presentation field;
          default_presentation =
            Inr (getEnumAsSelect field (enum_mergedProps this controlProps)
                   defaultValue fieldNamePrefix)
      in if truthy presentation then
           if strict_eq presentation (JStr ''select'') then
             Inr (getEnumAsSelect field (enum_mergedProps this controlProps)
                    defaultValue fieldNamePrefix)
           else if strict_eq presentation (JStr ''radio'') then
             Inr (getEnumAsRadio field (enum_mergedProps this controlProps)
                    defaultValue fieldNamePrefix)
           else if strict_eq presentation (JStr ''checkbox'') then
             if strict_eq (type_jsType (ftype field)) (JStr ''boolean'')
             then Inl (ReferenceError ''getBoolAsCheckbox'')
             else default_presentation
           else default_presentation
         else default_presentation)"

text \<open>\<^verbatim>\<open>this.type.getHtml(this, {}, defaultValue, fieldNamePrefix)\<close> for an installed
  behaviour.\<close>

fun type_getHtml ::
    "behavior \<Rightarrow> omni_type \<Rightarrow> omni_field \<Rightarrow> jsobj \<Rightarrow> jsval \<Rightarrow> string \<Rightarrow> error + string" where
  "type_getHtml InputBehavior this field controlProps defaultValue fieldNamePrefix =
     Inr (fst (input_getHtml this field controlProps defaultValue fieldNamePrefix))"
| "type_getHtml EnumValuesBehavior this field controlProps defaultValue fieldNamePrefix =
     enum_getHtml this field controlProps defaultValue fieldNamePrefix"

subsection \<open>Fields and schemas\<close>

text \<open>
  \<open>field_getHtml\<close> is the \<^verbatim>\<open>onField\<close> function \<^verbatim>\<open>getHtml\<close>, \<open>getHtmlFields\<close> the
  \<^verbatim>\<open>onSchema\<close> function of that name and \<open>getHtmlFields_loop\<close> its \<^verbatim>\<open>for\<close> loop
  over the rest of the field list, with the text built so far.
\<close>

definition obj_wrapper :: "omni_schema \<Rightarrow> omni_field \<Rightarrow> string \<Rightarrow> string" where
  \<open>obj_wrapper schema field inner =
     ''<div class="_'' @ collectionName schema @ '' _obj">\<newline><label class="_objLabel">''
       @ label field @ ''</label>\<newline>'' @ inner @ ''</div>''\<close>

function field_getHtml :: "omni_field \<Rightarrow> jsval \<Rightarrow> string \<Rightarrow> error + string"
  and getHtmlFields :: "omni_schema \<Rightarrow> jsval \<Rightarrow> string \<Rightarrow> error + string"
  and getHtmlFields_loop ::
    "omni_schema \<Rightarrow> string list \<Rightarrow> jsval \<Rightarrow> string \<Rightarrow> string \<Rightarrow> error + string"
where
  "field_getHtml this defaultValue fieldNamePrefix =
     (case ftype this of
        Schema schema \<Rightarrow>
          (case get_prop defaultValue (name this) of
             Inl e \<Rightarrow> Inl e
           | Inr innerData \<Rightarrow>
               (case getHtmlFields schema innerData (fieldNamePrefix @ name this @ ''.'') of
                  Inl e \<Rightarrow> Inl e
                | Inr inner \<Rightarrow> Inr (obj_wrapper schema this inner)))
      | DataType dt \<Rightarrow>
          (case getHtml dt of
             None \<Rightarrow> Inl (Error (''getHtml has not been defined for datatype '' @ type_name dt))
           | Some b \<Rightarrow>
               (case type_getHtml b dt this [] defaultValue fieldNamePrefix of
                  Inl e \<Rightarrow> Inl e
                | Inr control \<Rightarrow>
                    Inr (''<label>'' @ label this @ '' '' @ control @ ''</label>''))))"
| "getHtmlFields schema defaultData fieldNamePrefix =
     getHtmlFields_loop schema (getFieldList schema) defaultData fieldNamePrefix []"
| "getHtmlFields_loop schema [] defaultData fieldNamePrefix code = Inr code"
| "getHtmlFields_loop schema (fieldName # fl) defaultData fieldNamePrefix code =
     (case getField schema fieldName of
        Some (FieldMember field) \<Rightarrow>
          if \<not> uiExclude field then
            (case field_getHtml field (lodash_get defaultData (name field)) fieldNamePrefix of
               Inl e \<Rightarrow> Inl e
             | Inr html \<Rightarrow>
                 getHtmlFields_loop schema fl defaultData fieldNamePrefix
                   (code @ html @ ''\<newline>''))
          else getHtmlFields_loop schema fl defaultData fieldNamePrefix code
      | _ \<Rightarrow> getHtmlFields_loop schema fl defaultData fieldNamePrefix code)"
  by pat_completeness auto

termination
  apply (relation "measures
    [\<lambda>x. case x of
            Inl (f, _) \<Rightarrow> 2 * size f
          | Inr (Inl (s, _)) \<Rightarrow> 2 * size s + 1
          | Inr (Inr (s, _)) \<Rightarrow> 2 * size s,
     \<lambda>x. case x of
            Inl _ \<Rightarrow> 0
          | Inr (Inl _) \<Rightarrow> 0
          | Inr (Inr (_, fl, _)) \<Rightarrow> length fl]")
  apply simp_all
  subgoal for this defaultValue schema innerData
    by (cases this) simp
  subgoal premises prems for schema fieldName member field
  proof -
    have lt: "size f < size_list (size_prod (\<lambda>x. 0) size) ms"
      if "map_of ms key = Some (FieldMember f)"
      for ms :: "(string \<times> schema_member) list" and key f
      using that by (induction ms) (auto split: if_splits)
    from prems show ?thesis
      by (cases schema) (auto simp: getField_def dest: lt)
  qed
  done

declare field_getHtml.simps [simp del]
declare getHtmlFields.simps [simp del]

text \<open>The \<^verbatim>\<open>onSchema\<close> function \<^verbatim>\<open>getHtmlForm\<close>; \<^verbatim>\<open>formProps\<close> may be
  \<^verbatim>\<open>undefined\<close>.\<close>

definition getHtmlForm :: "omni_schema \<Rightarrow> jsval \<Rightarrow> jsobj option \<Rightarrow> jsval \<Rightarrow> error + string" where
  \<open>getHtmlForm schema submitButtonName formProps defaultData =
     (let code = ''<form'' @ getPropsAsAttributeString formProps None @ '' >\<newline>''
      in case getHtmlFields schema defaultData [] of
           Inl e \<Rightarrow> Inl e
         | Inr fieldsHtml \<Rightarrow>
             (let code = code @ fieldsHtml;
                  code =
                    (if truthy submitButtonName then
                       code @ ''<input type="submit" value="'' @ toString submitButtonName
                         @ ''" />\<newline>''
                     else if submitButtonName \<noteq> JNull then
                       code @ ''<input type="submit" />\<newline>''
                     else code)
              in Inr (code @ ''</form>\<newline>'')))\<close>

section \<open>Example types, fields and schemas\<close>

text \<open>
  \<^verbatim>\<open>String\<close> is one of the types the plugin decorates with \<^verbatim>\<open>defineHtmlType\<close>: it
  renders as an input element and has the input behaviour.  \<open>Plain_type\<close> is an
  example of a data type on which no \<^verbatim>\<open>getHtml\<close> is installed: it declares neither
  \<^verbatim>\<open>htmlSpec\<close> nor \<^verbatim>\<open>enumValues\<close>, so neither \<^verbatim>\<open>onType\<close> predicate matches it.
  The enumerations are examples of types that declare \<^verbatim>\<open>enumValues\<close>: one with
  boolean values, one with numbers.
\<close>

definition String_type :: omni_type where
  "String_type =
     \<lparr>type_name = ''String'', jsType = ''string'',
      htmlSpec = Some [(''elementName'', JStr ''input''), (''type'', JStr ''text'')],
      enumValues = None, getHtml = Some InputBehavior\<rparr>"

definition Plain_type :: omni_type where
  "Plain_type =
     \<lparr>type_name = ''Plain'', jsType = ''object'', htmlSpec = None,
      enumValues = None, getHtml = None\<rparr>"

definition YesNo_type :: omni_type where
  "YesNo_type =
     \<lparr>type_name = ''YesNo'', jsType = ''boolean'',
      htmlSpec = Some [(''elementName'', JStr ''input''), (''type'', JStr ''checkbox'')],
      enumValues = Some [\<lparr>ev_value = JBool False, ev_label = ''No''\<rparr>,
                         \<lparr>ev_value = JBool True, ev_label = ''Yes''\<rparr>],
      getHtml = Some EnumValuesBehavior\<rparr>"

definition Rating_type :: omni_type where
  "Rating_type =
     \<lparr>type_name = ''Rating'', jsType = ''number'', htmlSpec = None,
      enumValues = Some [\<lparr>ev_value = JNum 1, ev_label = ''One''\<rparr>,
                         \<lparr>ev_value = JNum 2, ev_label = ''Two''\<rparr>],
      getHtml = Some EnumValuesBehavior\<rparr>"

definition zip_field :: omni_field where
  "zip_field = OmniField ''zip'' ''Zip'' (DataType String_type) False False JUndefined"

definition address_schema :: omni_schema where
  "address_schema = OmniSchema ''Address'' [(''zip'', FieldMember zip_field)]"

definition address_field :: omni_field where
  "address_field =
     OmniField ''address'' ''Address'' (Schema address_schema) False False JUndefined"

definition person_schema :: omni_schema where
  "person_schema = OmniSchema ''Person'' [(''address'', FieldMember address_field)]"

definition place_schema :: omni_schema where
  "place_schema = OmniSchema ''Place'' [(''address'', FieldMember address_field)]"

definition home_field :: omni_field where
  "home_field = OmniField ''home'' ''Home'' (Schema place_schema) False False JUndefined"

definition profile_schema :: omni_schema where
  "profile_schema = OmniSchema ''Profile'' [(''home'', FieldMember home_field)]"

definition rating_field :: omni_field where
  "rating_field = OmniField ''rating'' ''Rating'' (DataType Rating_type) False False JUndefined"

definition rating_radio_field :: omni_field where
  "rating_radio_field =
     OmniField ''rating'' ''Rating'' (DataType Rating_type) False False (JStr ''radio'')"

definition agree_field :: omni_field where
  "agree_field =
     OmniField ''agree'' ''Agree'' (DataType YesNo_type) False False (JStr ''checkbox'')"

definition notes_field :: omni_field where
  "notes_field = OmniField ''notes'' ''Notes'' (DataType Plain_type) False False JUndefined"

definition secret_field :: omni_field where
  "secret_field = OmniField ''secret'' ''Secret'' (DataType String_type) True True JUndefined"

definition account_schema :: omni_schema where
  "account_schema =
     OmniSchema ''Account''
       [(''zip'', FieldMember zip_field), (''secret'', FieldMember secret_field),
        (''rating'', FieldMember rating_field)]"

definition article_schema :: omni_schema where
  "article_schema =
     OmniSchema ''Article'' [(''zip'', FieldMember zip_field), (''notes'', FieldMember notes_field)]"

text \<open>Two more input types for the examples: one whose \<^verbatim>\<open>htmlSpec\<close> presets the
  \<^verbatim>\<open>value\<close> attribute, one whose \<^verbatim>\<open>htmlSpec\<close> carries a \<^verbatim>\<open>required\<close> attribute
  of its own.\<close>

definition Preset_type :: omni_type where
  "Preset_type =
     \<lparr>type_name = ''Preset'', jsType = ''string'',
      htmlSpec = Some [(''elementName'', JStr ''input''), (''type'', JStr ''text''),
                       (''value'', JStr ''T'')],
      enumValues = None, getHtml = Some InputBehavior\<rparr>"




section \<open>Notions used by the claims\<close>

text \<open>The schema without the member of a given name.\<close>

definition removeField :: "omni_schema \<Rightarrow> string \<Rightarrow> omni_schema" where
  "removeField schema fieldName =
     OmniSchema (collectionName schema) (filter (\<lambda>m. fst m \<noteq> fieldName) (members schema))"

text \<open>The own properties of an object that may be \<^verbatim>\<open>undefined\<close>.\<close>

definition own_props :: "jsobj option \<Rightarrow> jsobj" where
  "own_props source = (case source of None \<Rightarrow> [] | Some ps \<Rightarrow> ps)"


definition attribute_text :: "string \<times> jsval \<Rightarrow> string" where
  \<open>attribute_text p = fst p @ ''="'' @ toString (snd p) @ ''"''\<close>





section \<open>Basic facts\<close>

lemma strict_eq_JStr [simp]: "strict_eq v (JStr s) \<longleftrightarrow> v = JStr s"
  by (cases v) auto

lemma getEnumAsSelect_nonempty: "getEnumAsSelect field cp dv p \<noteq> []"
  by (simp add: getEnumAsSelect_def Let_def)

lemma enum_getHtml_fallback:
  assumes "pres \<noteq> JStr ''select''" and "pres \<noteq> JStr ''radio''"
    and "pres = JStr ''checkbox'' \<longrightarrow> type_jsType t \<noteq> JStr ''boolean''"
  shows "enum_getHtml this (OmniField n l t r x pres) cp dv p
           = Inr (getEnumAsSelect (OmniField n l t r x JUndefined)
                    (enum_mergedProps this cp) dv p)"
  using assms by (simp add: enum_getHtml_def Let_def getEnumAsSelect_def)

lemma enum_getHtml_nohint:
  "enum_getHtml this (OmniField n l t r x JUndefined) cp dv p
     = Inr (getEnumAsSelect (OmniField n l t r x JUndefined) (enum_mergedProps this cp) dv p)"
  by (simp add: enum_getHtml_def Let_def)

subsection \<open>The loop over the field list\<close>

lemma loop_skip_excluded:
  assumes "getField schema k = Some (FieldMember field)" and "uiExclude field"
  shows "getHtmlFields_loop schema (filter (\<lambda>n. n \<noteq> k) fl) dd p code
           = getHtmlFields_loop schema fl dd p code"
  using assms
  by (induction fl arbitrary: code)
     (auto split: option.splits schema_member.splits sum.splits)

lemma loop_same_lookups:
  assumes "\<forall>n \<in> set fl. getField s1 n = getField s2 n"
  shows "getHtmlFields_loop s1 fl dd p code = getHtmlFields_loop s2 fl dd p code"
  using assms
  by (induction fl arbitrary: code)
     (auto split: option.splits schema_member.splits sum.splits)

lemma loop_error_reached:
  assumes "k \<in> set fl" and "getField schema k = Some (FieldMember field)"
    and "\<not> uiExclude field" and "field_getHtml field (lodash_get dd (name field)) p = Inl e"
  shows "\<exists>e'. getHtmlFields_loop schema fl dd p code = Inl e'"
  using assms
  by (induction fl arbitrary: code)
     (auto split: option.splits schema_member.splits sum.splits)

lemma map_of_filter_key:
  "n \<noteq> k \<Longrightarrow> map_of (filter (\<lambda>m. fst m \<noteq> k) ms) n = map_of ms n"
  by (induction ms) auto

lemma getFieldList_removeField:
  "getFieldList (removeField schema k) = filter (\<lambda>n. n \<noteq> k) (getFieldList schema)"
  by (simp add: getFieldList_def removeField_def filter_map comp_def)

lemma getField_removeField:
  "n \<noteq> k \<Longrightarrow> getField (removeField schema k) n = getField schema n"
  by (simp add: getField_def removeField_def map_of_filter_key)

lemma getField_in_list: "getField schema k = Some m \<Longrightarrow> k \<in> set (getFieldList schema)"
  by (auto simp: getField_def getFieldList_def dest: map_of_SomeD intro: rev_image_eqI)

subsection \<open>Merged options as maps\<close>

lemma map_of_set_prop:
  "map_of (set_prop ps k v) k' = (if k' = k then Some v else map_of ps k')"
  by (induction ps) auto

lemma map_of_assign_props:
  "distinct (map fst ps) \<Longrightarrow>
   map_of (foldl (\<lambda>t p. set_prop t (fst p) (snd p)) target ps) k
     = (case map_of ps k of Some v \<Rightarrow> Some v | None \<Rightarrow> map_of target k)"
proof (induction ps arbitrary: target)
  case Nil
  then show ?case by simp
next
  case (Cons p ps)
  then have "map_of ps (fst p) = None"
    by (simp add: map_of_eq_None_iff)
  with Cons show ?case
    by (cases p) (auto simp: map_of_set_prop split: option.splits)
qed

lemma map_of_merge:
  assumes "distinct (map fst (own_props hs))" and "distinct (map fst cp)"
  shows "map_of (object_assign [] [hs, Some cp]) k
     = (case map_of cp k of Some v \<Rightarrow> Some v | None \<Rightarrow> map_of (own_props hs) k)"
  using assms
  by (simp add: object_assign_def own_props_def map_of_assign_props assign_one_def
       split: option.splits)

lemma distinct_set_prop:
  "distinct (map fst ps) \<Longrightarrow> distinct (map fst (set_prop ps k v))"
proof (induction ps)
  case Nil
  then show ?case by simp
next
  case (Cons p ps)
  have "fst ` set (set_prop ps k v) \<subseteq> insert k (fst ` set ps)" for ps :: jsobj
    by (induction ps) auto
  with Cons show ?case by (auto split: if_splits)
qed

subsection \<open>Occurrences of a word in a text built from pieces\<close>





lemma foldl_append_concat:
  "foldl (\<lambda>code ev. code @ f ev) code evs = code @ concat (map f evs)"
  by (induction evs arbitrary: code) simp_all




subsection \<open>Where the required marker can occur in a control\<close>













subsection \<open>The attributes a control is rendered with\<close>

lemma getPropsAsAttributeString_concat:
  "getPropsAsAttributeString (Some ps) ignoreProps
     = concat (map (\<lambda>a. '' '' @ attribute_text a) (omit ps ignoreProps))"
  by (simp add: getPropsAsAttributeString_def attribute_text_def foldl_append_concat)

lemma distinct_assign_props:
  "distinct (map fst target) \<Longrightarrow>
   distinct (map fst (foldl (\<lambda>t p. set_prop t (fst p) (snd p)) target ps))"
  by (induction ps arbitrary: target) (simp_all add: distinct_set_prop)

lemma distinct_object_assign:
  "distinct (map fst (object_assign [] sources))"
proof -
  have "distinct (map fst (foldl assign_one target sources))"
    if "distinct (map fst target)" for target
    using that
    by (induction sources arbitrary: target)
       (simp_all add: assign_one_def distinct_assign_props split: option.splits)
  then show ?thesis by (simp add: object_assign_def)
qed

lemma map_of_radio_mergedProps:
  assumes "distinct (map fst props)"
  shows "map_of (radio_mergedProps props defaultValue ev) key
     = (if key = ''type'' then Some (JStr ''radio'')
        else if key = ''checked'' \<and> strict_eq (ev_value ev) defaultValue
             then Some (JBool True)
        else map_of props key)"
  using assms map_of_merge [of "Some props" "[(''type'', JStr ''radio'')]"]
  by (simp add: radio_mergedProps_def Let_def map_of_set_prop own_props_def)

lemma map_of_checkbox_mergedProps:
  assumes "distinct (map fst props)"
  shows "map_of (checkbox_mergedProps props defaultValue) key
     = (if key = ''type'' then Some (JStr ''checkbox'')
        else if key = ''checked'' \<and> truthy defaultValue then Some (JBool True)
        else map_of props key)"
  using assms map_of_merge [of "Some props" "[(''type'', JStr ''checkbox'')]"]
  by (simp add: checkbox_mergedProps_def Let_def map_of_set_prop own_props_def)

lemma enum_getHtml_radio:
  assumes "ui_presentation field = JStr ''radio''"
  shows "enum_getHtml this field controlProps defaultValue p
     = Inr (concat (map (\<lambda>ev.
              radio_input field (enum_mergedProps this controlProps) defaultValue p ev
                @ ''&nbsp;'' @ ev_label ev @ ''<br/>\<newline>'')
            (forEach_enumValues (type_enumValues (ftype field)))))"
  using assms
  by (simp add: enum_getHtml_def Let_def getEnumAsRadio_def foldl_append_concat)

lemma enum_getHtml_select:
  assumes "ui_presentation field \<noteq> JStr ''radio''"
    and "ui_presentation field = JStr ''checkbox''
           \<longrightarrow> type_jsType (ftype field) \<noteq> JStr ''boolean''"
  shows "enum_getHtml this field controlProps defaultValue p
     = Inr (getEnumAsSelect field [] defaultValue p)"
  using assms by (simp add: enum_getHtml_def Let_def getEnumAsSelect_def)

section \<open>The claims\<close>

text \<open>
  Claim C1 (absent default values).  A field whose type is a schema reads
  \<^verbatim>\<open>defaultValue[this.name]\<close> without testing \<^verbatim>\<open>defaultValue\<close>.  When the default
  data has no entry for the field (or there is no default data at all),
  \<^verbatim>\<open>_.get\<close> hands \<^verbatim>\<open>undefined\<close> to the field, and rendering the schema throws a
  \<^verbatim>\<open>TypeError\<close> instead of rendering the inner fields with absent defaults.
\<close>

theorem nested_field_absent_default_raises:
  "getHtmlFields person_schema JUndefined [] = Inl TypeError
   \<and> getHtmlFields person_schema (JObj []) [] = Inl TypeError
   \<and> field_getHtml address_field JUndefined [] = Inl TypeError"
  by code_simp

text \<open>
  Claim C2 (checkbox hint on a boolean-valued enumeration).  The \<^verbatim>\<open>'checkbox'\<close> case of
  the enumeration behaviour calls the undeclared \<^verbatim>\<open>getBoolAsCheckbox\<close>: for a field
  of a boolean-valued enumeration with that hint the behaviour, and with it the rendering
  of the field, throws a \<^verbatim>\<open>ReferenceError\<close>; no checkbox is returned.
\<close>

theorem checkbox_hint_on_boolean_enum_raises:
  "enum_getHtml YesNo_type agree_field [] (JBool True) []
     = Inl (ReferenceError ''getBoolAsCheckbox'')
   \<and> field_getHtml agree_field (JBool True) [] = Inl (ReferenceError ''getBoolAsCheckbox'')"
  by code_simp

text \<open>
  Claim C3 (marking the default by value).  The select renderer compares the enumerated
  value itself with the text of the default, the radio renderer compares the two values
  as they are.  For the enumerated value \<open>1\<close> (a number) the select renderer marks
  nothing, whether the default is the number \<open>1\<close> or the text \<open>1\<close>, and the radio
  renderer checks nothing when the default is the text \<open>1\<close>.
\<close>

theorem enum_default_not_marked_by_text:
  \<open>field_getHtml rating_field (JNum 1) []
     = Inr (''<label>Rating <select size="1" name="rating" >\<newline>''
            @ ''  <option value="1" >One</option>\<newline>''
            @ ''  <option value="2" >Two</option>\<newline>''
            @ ''</select>\<newline>''
            @ ''</label>'')
   \<and> field_getHtml rating_field (JStr ''1'') [] = field_getHtml rating_field (JNum 1) []
   \<and> getEnumAsSelect rating_field [] (JNum 1) [] = getEnumAsSelect rating_field [] JUndefined []
   \<and> field_getHtml rating_radio_field (JStr ''1'') []
     = Inr (''<label>Rating ''
            @ ''<input type="radio" name="rating" value="1" />&nbsp;One<br/>\<newline>''
            @ ''<input type="radio" name="rating" value="2" />&nbsp;Two<br/>\<newline>''
            @ ''</label>'')
   \<and> getEnumAsRadio rating_radio_field [] (JStr ''1'') []
     = getEnumAsRadio rating_radio_field [] JUndefined []\<close>
  by code_simp

text \<open>
  Claim C4 (presentation fallback).  For a field of an enumeration type, a hint other
  than \<^verbatim>\<open>'select'\<close> and \<^verbatim>\<open>'radio'\<close>, and other than \<^verbatim>\<open>'checkbox'\<close> on a type whose
  \<^verbatim>\<open>jsType\<close> is \<^verbatim>\<open>'boolean'\<close>, gives what the same field gives with no hint, for
  the type behaviour and for the rendering of the field: not an error and not empty, but
  the default presentation, the text of \<^verbatim>\<open>getEnumAsSelect\<close> for the field, which is
  the select element named after the field with one option for each enumerated value in
  declaration order.
\<close>

theorem presentation_fallback:
  assumes "pres \<noteq> JStr ''select''" and "pres \<noteq> JStr ''radio''"
    and "pres = JStr ''checkbox'' \<longrightarrow> type_jsType (DataType dt) \<noteq> JStr ''boolean''"
    and "getHtml dt = Some EnumValuesBehavior"
  shows "enum_getHtml this (OmniField n l (DataType dt) r x pres) cp dv p
           = enum_getHtml this (OmniField n l (DataType dt) r x JUndefined) cp dv p
         \<and> (\<exists>html. enum_getHtml this (OmniField n l (DataType dt) r x pres) cp dv p = Inr html
                \<and> html \<noteq> [])
         \<and> field_getHtml (OmniField n l (DataType dt) r x pres) dv p
           = field_getHtml (OmniField n l (DataType dt) r x JUndefined) dv p
         \<and> (\<exists>html. field_getHtml (OmniField n l (DataType dt) r x pres) dv p = Inr html
                \<and> html \<noteq> [])
         \<and> enum_getHtml this (OmniField n l (DataType dt) r x pres) cp dv p
           = Inr (getEnumAsSelect (OmniField n l (DataType dt) r x JUndefined)
                    (enum_mergedProps this cp) dv p)
         \<and> field_getHtml (OmniField n l (DataType dt) r x pres) dv p
           = Inr (''<label>'' @ l @ '' ''
                  @ getEnumAsSelect (OmniField n l (DataType dt) r x JUndefined)
                      (enum_mergedProps dt []) dv p
                  @ ''</label>'')
         \<and> getEnumAsSelect (OmniField n l (DataType dt) r x JUndefined) controlProps dv p
           = ''<select size=\"1\" name=\"'' @ p @ n @ ''\" ''
             @ (if r then required_marker else []) @ ''>\<newline>''
             @ concat (map (select_option dv) (forEach_enumValues (enumValues dt)))
             @ ''</select>\<newline>''"
proof -
  let ?hint = "OmniField n l (DataType dt) r x pres"
  let ?plain = "OmniField n l (DataType dt) r x JUndefined"
  have e: "enum_getHtml this' ?hint cp' dv p
             = Inr (getEnumAsSelect ?plain (enum_mergedProps this' cp') dv p)" for this' cp'
    using assms(1-3) by (rule enum_getHtml_fallback)
  have e0: "enum_getHtml this' ?plain cp' dv p
             = Inr (getEnumAsSelect ?plain (enum_mergedProps this' cp') dv p)" for this' cp'
    by (rule enum_getHtml_nohint)
  have f: "field_getHtml ?hint dv p
             = Inr (''<label>'' @ l @ '' ''
                    @ getEnumAsSelect ?plain (enum_mergedProps dt []) dv p @ ''</label>'')"
    using assms(4) by (simp add: field_getHtml.simps e)
  have f0: "field_getHtml ?plain dv p
             = Inr (''<label>'' @ l @ '' ''
                    @ getEnumAsSelect ?plain (enum_mergedProps dt []) dv p @ ''</label>'')"
    using assms(4) by (simp add: field_getHtml.simps e0)
  have s: "getEnumAsSelect ?plain controlProps dv p
           = ''<select size=\"1\" name=\"'' @ p @ n @ ''\" ''
             @ (if r then required_marker else []) @ ''>\<newline>''
             @ concat (map (select_option dv) (forEach_enumValues (enumValues dt)))
             @ ''</select>\<newline>''"
    by (simp add: getEnumAsSelect_def Let_def foldl_append_concat)
  have ne: "getEnumAsSelect ?plain (enum_mergedProps this cp) dv p \<noteq> []"
    by (rule getEnumAsSelect_nonempty)
  show ?thesis
  proof (intro conjI)
    show "enum_getHtml this ?hint cp dv p = enum_getHtml this ?plain cp dv p"
      by (simp only: e e0)
    show "\<exists>html. enum_getHtml this ?hint cp dv p = Inr html \<and> html \<noteq> []"
      using e ne by blast
    show "field_getHtml ?hint dv p = field_getHtml ?plain dv p"
      by (simp only: f f0)
    show "\<exists>html. field_getHtml ?hint dv p = Inr html \<and> html \<noteq> []"
      unfolding f by simp
    show "enum_getHtml this ?hint cp dv p
            = Inr (getEnumAsSelect ?plain (enum_mergedProps this cp) dv p)"
      by (rule e)
    show "field_getHtml ?hint dv p
            = Inr (''<label>'' @ l @ '' ''
                   @ getEnumAsSelect ?plain (enum_mergedProps dt []) dv p @ ''</label>'')"
      by (rule f)
    show "getEnumAsSelect ?plain controlProps dv p
           = ''<select size=\"1\" name=\"'' @ p @ n @ ''\" ''
             @ (if r then required_marker else []) @ ''>\<newline>''
             @ concat (map (select_option dv) (forEach_enumValues (enumValues dt)))
             @ ''</select>\<newline>''"
      by (rule s)
  qed
qed

theorem presentation_fallback_witness:
  \<open>type_jsType (DataType Rating_type) \<noteq> JStr ''boolean''
   \<and> getHtml Rating_type = Some EnumValuesBehavior
   \<and> enum_getHtml Rating_type
        (OmniField ''rating'' ''Rating'' (DataType Rating_type) True False (JStr ''checkbox''))
        [] (JNum 2) []
     = enum_getHtml Rating_type
        (OmniField ''rating'' ''Rating'' (DataType Rating_type) True False JUndefined)
        [] (JNum 2) []
   \<and> field_getHtml
        (OmniField ''rating'' ''Rating'' (DataType Rating_type) True False (JStr ''checkbox''))
        (JNum 2) []
     = field_getHtml
        (OmniField ''rating'' ''Rating'' (DataType Rating_type) True False JUndefined)
        (JNum 2) []
   \<and> field_getHtml
        (OmniField ''rating'' ''Rating'' (DataType Rating_type) True False (JStr ''checkbox''))
        (JNum 2) []
     = Inr (''<label>Rating <select size="1" name="rating" required="required">\<newline>''
            @ ''  <option value="1" >One</option>\<newline>''
            @ ''  <option value="2" >Two</option>\<newline>''
            @ ''</select>\<newline>''
            @ ''</label>'')\<close>
proof -
  have j: "type_jsType (DataType Rating_type) \<noteq> JStr ''boolean''"
    by (simp add: Rating_type_def)
  have g: "getHtml Rating_type = Some EnumValuesBehavior"
    by (simp add: Rating_type_def)
  have h1: "JStr ''checkbox'' \<noteq> JStr ''select''" by simp
  have h2: "JStr ''checkbox'' \<noteq> JStr ''radio''" by simp
  have h3: "JStr ''checkbox'' = JStr ''checkbox''
              \<longrightarrow> type_jsType (DataType Rating_type) \<noteq> JStr ''boolean''"
    using j by simp
  note t = presentation_fallback [where pres = "JStr ''checkbox''" and dt = Rating_type
      and this = Rating_type and n = "''rating''" and l = "''Rating''" and r = True
      and x = False and cp = "[]" and dv = "JNum 2" and p = "[]" and controlProps = "[]",
      OF h1 h2 h3 g]
  note a = t [THEN conjunct1]
  note b = t [THEN conjunct2, THEN conjunct2, THEN conjunct1]
  note c = t [THEN conjunct2, THEN conjunct2, THEN conjunct2, THEN conjunct2,
      THEN conjunct2, THEN conjunct1]
  have v: \<open>Inr (''<label>'' @ ''Rating'' @ '' ''
                 @ getEnumAsSelect
                     (OmniField ''rating'' ''Rating'' (DataType Rating_type) True False JUndefined)
                     (enum_mergedProps Rating_type []) (JNum 2) []
                 @ ''</label>'')
           = (Inr (''<label>Rating <select size="1" name="rating" required="required">\<newline>''
                @ ''  <option value="1" >One</option>\<newline>''
                @ ''  <option value="2" >Two</option>\<newline>''
                @ ''</select>\<newline>''
                @ ''</label>'') :: error + string)\<close>
    by code_simp
  show ?thesis using j g a b c [unfolded v] by (intro conjI)
qed

text \<open>
  Claim C5 (exclusion).  A member of the schema that is a field with the exclusion flag
  set contributes nothing: for all default data and every name prefix
  \<^verbatim>\<open>getHtmlFields\<close> gives the same result, text or error, as on the schema without
  that member, and so does \<^verbatim>\<open>getHtmlForm\<close> for every submit button name and all form
  options.
\<close>

theorem excluded_field_contributes_nothing:
  assumes "getField schema k = Some (FieldMember field)" and "uiExclude field"
  shows "getHtmlFields (removeField schema k) dd p = getHtmlFields schema dd p
       \<and> getHtmlForm (removeField schema k) submitButtonName formProps dd
           = getHtmlForm schema submitButtonName formProps dd"
proof -
  have fields: "getHtmlFields (removeField schema k) dd' p' = getHtmlFields schema dd' p'"
    for dd' p'
  proof -
    let ?fl = "filter (\<lambda>n. n \<noteq> k) (getFieldList schema)"
    have "getHtmlFields (removeField schema k) dd' p'
            = getHtmlFields_loop (removeField schema k) ?fl dd' p' []"
      by (simp only: getHtmlFields.simps getFieldList_removeField)
    also have "\<dots> = getHtmlFields_loop schema ?fl dd' p' []"
      by (rule loop_same_lookups) (simp add: getField_removeField)
    also have "\<dots> = getHtmlFields_loop schema (getFieldList schema) dd' p' []"
      by (rule loop_skip_excluded [OF assms])
    also have "\<dots> = getHtmlFields schema dd' p'"
      by (simp only: getHtmlFields.simps)
    finally show ?thesis .
  qed
  have "getHtmlForm (removeField schema k) submitButtonName formProps dd
           = getHtmlForm schema submitButtonName formProps dd"
    unfolding getHtmlForm_def fields ..
  with fields show ?thesis by (intro conjI)
qed

theorem excluded_field_contributes_nothing_witness:
  "getField account_schema ''secret'' = Some (FieldMember secret_field)
   \<and> uiExclude secret_field
   \<and> getHtmlFields (removeField account_schema ''secret'')
        (JObj [(''zip'', JStr ''12345''), (''secret'', JStr ''hunter2'')]) ''user.''
     = getHtmlFields account_schema
        (JObj [(''zip'', JStr ''12345''), (''secret'', JStr ''hunter2'')]) ''user.''
   \<and> getHtmlForm (removeField account_schema ''secret'') (JStr ''Save'') None
        (JObj [(''zip'', JStr ''12345''), (''secret'', JStr ''hunter2'')])
     = getHtmlForm account_schema (JStr ''Save'') None
        (JObj [(''zip'', JStr ''12345''), (''secret'', JStr ''hunter2'')])"
proof -
  have m: "getField account_schema ''secret'' = Some (FieldMember secret_field)"
    by (simp add: getField_def account_schema_def)
  have x: "uiExclude secret_field"
    by (simp add: secret_field_def)
  from m x excluded_field_contributes_nothing [OF m x, where p = "''user.''"
      and dd = "JObj [(''zip'', JStr ''12345''), (''secret'', JStr ''hunter2'')]"
      and submitButtonName = "JStr ''Save''" and formProps = None]
  show ?thesis by simp
qed

text \<open>
  Claim C6 (dotted names of nested fields).  A field whose type is a schema hands
  \<^verbatim>\<open>defaultValue[this.name]\<close> to the nested schema, although \<^verbatim>\<open>getHtmlFields\<close> has
  already picked the field's own value out of the default data by that name.  So the
  nested schema gets \<^verbatim>\<open>undefined\<close> from default data shaped like the record, and a
  composite field inside it then reads a property of \<^verbatim>\<open>undefined\<close>: with two levels
  of nesting the rendering throws a \<^verbatim>\<open>TypeError\<close>, for default data shaped like the
  record and for no default data, and no control named \<^verbatim>\<open>home.address.zip\<close> is
  produced.  Only default data that repeats the name of every composite field reaches
  the inner control, which then has the dotted name.
\<close>

theorem deep_nesting_raises:
  \<open>getHtmlFields profile_schema
      (JObj [(''home'', JObj [(''address'', JObj [(''zip'', JStr ''12345'')])])]) []
     = Inl TypeError
   \<and> getHtmlFields profile_schema JUndefined [] = Inl TypeError
   \<and> getHtmlFields profile_schema
        (JObj [(''home'', JObj [(''home'',
           JObj [(''address'', JObj [(''address'', JObj [(''zip'', JStr ''12345'')])])])])]) []
     = Inr (''<div class="_Place _obj">\<newline>''
            @ ''<label class="_objLabel">Home</label>\<newline>''
            @ ''<div class="_Address _obj">\<newline>''
            @ ''<label class="_objLabel">Address</label>\<newline>''
            @ ''<label>Zip <input type="text" value="12345" name="home.address.zip" /></label>\<newline>''
            @ ''</div>\<newline>''
            @ ''</div>\<newline>'')\<close>
  by code_simp

text \<open>
  Claim C7 (undefined capability).  A field whose type is a data type with no
  \<^verbatim>\<open>getHtml\<close> behaviour makes its rendering throw the error
  \<^verbatim>\<open>getHtml has not been defined for datatype\<close> followed by the type's name, for every
  default value and prefix; and a schema that has such a field as a member that is not
  excluded gives an error, not a text, from \<^verbatim>\<open>getHtmlFields\<close> and
  \<^verbatim>\<open>getHtmlForm\<close>: the field is not skipped and no partial output is returned.
\<close>

theorem undefined_capability_is_fatal:
  assumes "ftype field = DataType dt" and "getHtml dt = None"
  shows "field_getHtml field dv p
           = Inl (Error (''getHtml has not been defined for datatype '' @ type_name dt))
       \<and> (getField schema k = Some (FieldMember field) \<and> \<not> uiExclude field
            \<longrightarrow> (\<exists>e. getHtmlFields schema dd p = Inl e)
              \<and> (\<exists>e. getHtmlForm schema submitButtonName formProps dd = Inl e))"
proof -
  have f: "field_getHtml field dv' p'
           = Inl (Error (''getHtml has not been defined for datatype '' @ type_name dt))"
    for dv' p'
    using assms by (simp add: field_getHtml.simps)
  have g: "\<exists>e. getHtmlFields schema dd' p' = Inl e"
    if "getField schema k = Some (FieldMember field)" "\<not> uiExclude field" for dd' p'
  proof -
    have "k \<in> set (getFieldList schema)" using that(1) by (rule getField_in_list)
    from loop_error_reached [OF this that f]
    show ?thesis unfolding getHtmlFields.simps .
  qed
  have h: "\<exists>e. getHtmlForm schema submitButtonName formProps dd = Inl e"
    if "getField schema k = Some (FieldMember field)" "\<not> uiExclude field"
  proof -
    from g [OF that] obtain e where "getHtmlFields schema dd [] = Inl e" ..
    then have "getHtmlForm schema submitButtonName formProps dd = Inl e"
      by (simp add: getHtmlForm_def)
    then show ?thesis ..
  qed
  show ?thesis
  proof (intro conjI impI)
    show "field_getHtml field dv p
           = Inl (Error (''getHtml has not been defined for datatype '' @ type_name dt))"
      by (rule f)
  next
    assume a: "getField schema k = Some (FieldMember field) \<and> \<not> uiExclude field"
    show "\<exists>e. getHtmlFields schema dd p = Inl e"
      using a g by (elim conjE)
  next
    assume a: "getField schema k = Some (FieldMember field) \<and> \<not> uiExclude field"
    show "\<exists>e. getHtmlForm schema submitButtonName formProps dd = Inl e"
      using a h by (elim conjE)
  qed
qed

theorem undefined_capability_is_fatal_witness:
  "ftype notes_field = DataType Plain_type \<and> getHtml Plain_type = None
   \<and> getField article_schema ''notes'' = Some (FieldMember notes_field)
   \<and> \<not> uiExclude notes_field
   \<and> field_getHtml notes_field (JStr ''hello'') []
       = Inl (Error ''getHtml has not been defined for datatype Plain'')
   \<and> (\<exists>e. getHtmlFields article_schema (JObj [(''zip'', JStr ''12345'')]) [] = Inl e)
   \<and> (\<exists>e. getHtmlForm article_schema JUndefined None (JObj [(''zip'', JStr ''12345'')])
              = Inl e)"
proof -
  have t: "ftype notes_field = DataType Plain_type" by (simp add: notes_field_def)
  have b: "getHtml Plain_type = None" by (simp add: Plain_type_def)
  have m: "getField article_schema ''notes'' = Some (FieldMember notes_field)"
    by (simp add: getField_def article_schema_def)
  have x: "\<not> uiExclude notes_field" by (simp add: notes_field_def)
  have n: "type_name Plain_type = ''Plain''" by (simp add: Plain_type_def)
  from undefined_capability_is_fatal [OF t b, where schema = article_schema
      and k = "''notes''" and dv = "JStr ''hello''" and p = "[]"
      and dd = "JObj [(''zip'', JStr ''12345'')]" and submitButtonName = JUndefined
      and formProps = None]
  show ?thesis using t b m x n by simp
qed




text \<open>
  Claim C9 (merged options), as amended, for objects whose property names are
  distinct.  The input behaviour renders its control with the attributes of the type's
  \<^verbatim>\<open>htmlSpec\<close> defaults merged with the caller's options, each property but
  \<^verbatim>\<open>elementName\<close> once; the caller's option wins for every name given by both, except
  for the name \<^verbatim>\<open>value\<close> when the default value is not \<^verbatim>\<open>undefined\<close>: that is then the
  default value.  The enumeration behaviour with the hint \<^verbatim>\<open>'radio'\<close> renders every
  radio input with the attributes of the same merge, the caller's option winning, except
  \<^verbatim>\<open>type\<close>, which is always \<^verbatim>\<open>'radio'\<close>, and \<^verbatim>\<open>checked\<close>, which is \<^verbatim>\<open>true\<close> on the
  input whose enumerated value is the default value.  The enumeration behaviour in its
  select presentation renders none of the merged options: its output is that of the
  select renderer given no options at all.  (The checkbox renderer, which no behaviour
  reaches, sets \<^verbatim>\<open>type\<close> and \<^verbatim>\<open>checked\<close> over the options it is given, like the radio
  renderer.)
\<close>

theorem merged_options_in_rendered_controls:
  assumes "distinct (map fst (own_props (htmlSpec this)))"
    and "distinct (map fst controlProps)"
  shows "fst (input_getHtml this field controlProps defaultValue p)
           = ''<input''
             @ concat (map (\<lambda>a. '' '' @ attribute_text a)
                 (omit (input_mergedProps this controlProps defaultValue)
                    (Some ''elementName'')))
             @ '' '' @ (if isRequired field then required_marker @ '' '' else [])
             @ ''name=\"'' @ p @ name field @ ''\" />''
       \<and> distinct (map fst (input_mergedProps this controlProps defaultValue))
       \<and> map_of (input_mergedProps this controlProps defaultValue) key
           = (if key = ''value'' \<and> defaultValue \<noteq> JUndefined then Some defaultValue
              else case map_of controlProps key of
                     Some v \<Rightarrow> Some v
                   | None \<Rightarrow> map_of (own_props (htmlSpec this)) key)
       \<and> (ui_presentation field = JStr ''radio'' \<longrightarrow>
            enum_getHtml this field controlProps defaultValue p
              = Inr (concat (map (\<lambda>ev.
                       radio_input field (enum_mergedProps this controlProps) defaultValue p ev
                         @ ''&nbsp;'' @ ev_label ev @ ''<br/>\<newline>'')
                     (forEach_enumValues (type_enumValues (ftype field))))))
       \<and> radio_input field (enum_mergedProps this controlProps) defaultValue p ev
           = ''<input''
             @ concat (map (\<lambda>a. '' '' @ attribute_text a)
                 (omit (radio_mergedProps (enum_mergedProps this controlProps) defaultValue ev)
                    (Some ''elementName'')))
             @ '' '' @ (if isRequired field then required_marker @ '' '' else [])
             @ ''name=\"'' @ p @ name field @ ''\" value=\"'' @ toString (ev_value ev)
             @ ''\" />''
       \<and> distinct (map fst
            (radio_mergedProps (enum_mergedProps this controlProps) defaultValue ev))
       \<and> map_of (radio_mergedProps (enum_mergedProps this controlProps) defaultValue ev) key
           = (if key = ''type'' then Some (JStr ''radio'')
              else if key = ''checked'' \<and> strict_eq (ev_value ev) defaultValue
                   then Some (JBool True)
              else case map_of controlProps key of
                     Some v \<Rightarrow> Some v
                   | None \<Rightarrow> map_of (own_props (htmlSpec this)) key)
       \<and> (ui_presentation field \<noteq> JStr ''radio''
            \<and> (ui_presentation field = JStr ''checkbox''
                 \<longrightarrow> type_jsType (ftype field) \<noteq> JStr ''boolean'') \<longrightarrow>
            enum_getHtml this field controlProps defaultValue p
              = Inr (getEnumAsSelect field [] defaultValue p))
       \<and> map_of (checkbox_mergedProps controlProps defaultValue) key
           = (if key = ''type'' then Some (JStr ''checkbox'')
              else if key = ''checked'' \<and> truthy defaultValue then Some (JBool True)
              else map_of controlProps key)"
proof (intro conjI impI)
  show "fst (input_getHtml this field controlProps defaultValue p)
           = ''<input''
             @ concat (map (\<lambda>a. '' '' @ attribute_text a)
                 (omit (input_mergedProps this controlProps defaultValue)
                    (Some ''elementName'')))
             @ '' '' @ (if isRequired field then required_marker @ '' '' else [])
             @ ''name=\"'' @ p @ name field @ ''\" />''"
    by (simp add: input_getHtml_def getPropsAsAttributeString_concat)
  show "distinct (map fst (input_mergedProps this controlProps defaultValue))"
    unfolding input_mergedProps_def by (rule distinct_object_assign)
  show "map_of (input_mergedProps this controlProps defaultValue) key
           = (if key = ''value'' \<and> defaultValue \<noteq> JUndefined then Some defaultValue
              else case map_of controlProps key of
                     Some v \<Rightarrow> Some v
                   | None \<Rightarrow> map_of (own_props (htmlSpec this)) key)"
    using assms
    by (simp add: input_mergedProps_def input_controlProps_def map_of_merge
        distinct_set_prop map_of_set_prop)
  show "radio_input field (enum_mergedProps this controlProps) defaultValue p ev
           = ''<input''
             @ concat (map (\<lambda>a. '' '' @ attribute_text a)
                 (omit (radio_mergedProps (enum_mergedProps this controlProps) defaultValue ev)
                    (Some ''elementName'')))
             @ '' '' @ (if isRequired field then required_marker @ '' '' else [])
             @ ''name=\"'' @ p @ name field @ ''\" value=\"'' @ toString (ev_value ev)
             @ ''\" />''"
    by (simp add: radio_input_def getPropsAsAttributeString_concat)
  have m: "distinct (map fst (enum_mergedProps this controlProps))"
    unfolding enum_mergedProps_def by (rule distinct_object_assign)
  show "distinct (map fst
            (radio_mergedProps (enum_mergedProps this controlProps) defaultValue ev))"
    by (simp add: radio_mergedProps_def Let_def distinct_object_assign distinct_set_prop)
  show "map_of (radio_mergedProps (enum_mergedProps this controlProps) defaultValue ev) key
           = (if key = ''type'' then Some (JStr ''radio'')
              else if key = ''checked'' \<and> strict_eq (ev_value ev) defaultValue
                   then Some (JBool True)
              else case map_of controlProps key of
                     Some v \<Rightarrow> Some v
                   | None \<Rightarrow> map_of (own_props (htmlSpec this)) key)"
  proof -
    have e: "map_of (enum_mergedProps this controlProps) key
               = (case map_of controlProps key of
                    Some v \<Rightarrow> Some v
                  | None \<Rightarrow> map_of (own_props (htmlSpec this)) key)"
      using assms by (simp add: enum_mergedProps_def map_of_merge)
    show ?thesis
      unfolding map_of_radio_mergedProps [OF m] e ..
  qed
  show "map_of (checkbox_mergedProps controlProps defaultValue) key
           = (if key = ''type'' then Some (JStr ''checkbox'')
              else if key = ''checked'' \<and> truthy defaultValue then Some (JBool True)
              else map_of controlProps key)"
    using assms(2) by (rule map_of_checkbox_mergedProps)
next
  assume "ui_presentation field = JStr ''radio''"
  then show "enum_getHtml this field controlProps defaultValue p
              = Inr (concat (map (\<lambda>ev.
                       radio_input field (enum_mergedProps this controlProps) defaultValue p ev
                         @ ''&nbsp;'' @ ev_label ev @ ''<br/>\<newline>'')
                     (forEach_enumValues (type_enumValues (ftype field)))))"
    by (rule enum_getHtml_radio)
next
  assume "ui_presentation field \<noteq> JStr ''radio''
            \<and> (ui_presentation field = JStr ''checkbox''
                 \<longrightarrow> type_jsType (ftype field) \<noteq> JStr ''boolean'')"
  then show "enum_getHtml this field controlProps defaultValue p
              = Inr (getEnumAsSelect field [] defaultValue p)"
    by (intro enum_getHtml_select) simp_all
qed

theorem merged_options_in_rendered_controls_witness:
  \<open>distinct (map fst (own_props (htmlSpec String_type)))
   \<and> distinct (map fst [(''type'', JStr ''password''), (''size'', JNum 8)])
   \<and> fst (input_getHtml String_type zip_field
            [(''type'', JStr ''password''), (''size'', JNum 8)] (JStr ''abc'') [])
       = ''<input type="password" size="8" value="abc" name="zip" />''
   \<and> map_of (input_mergedProps String_type
               [(''type'', JStr ''password''), (''size'', JNum 8)] (JStr ''abc'')) ''type''
       = Some (JStr ''password'')
   \<and> ui_presentation rating_radio_field = JStr ''radio''
   \<and> enum_getHtml String_type rating_radio_field
        [(''type'', JStr ''password''), (''size'', JNum 8)] (JNum 1) []
       = Inr (''<input type="radio" size="8" checked="true" name="rating" value="1" />''
              @ ''&nbsp;One<br/>\<newline>''
              @ ''<input type="radio" size="8" name="rating" value="2" />''
              @ ''&nbsp;Two<br/>\<newline>'')
   \<and> ui_presentation rating_field \<noteq> JStr ''radio''
   \<and> ui_presentation rating_field \<noteq> JStr ''checkbox''
   \<and> enum_getHtml String_type rating_field
        [(''type'', JStr ''password''), (''size'', JNum 8)] (JNum 1) []
       = Inr (''<select size="1" name="rating" >\<newline>''
              @ ''  <option value="1" >One</option>\<newline>''
              @ ''  <option value="2" >Two</option>\<newline>''
              @ ''</select>\<newline>'')\<close>
proof -
  let ?cp = "[(''type'', JStr ''password''), (''size'', JNum 8)]"
  have h: "distinct (map fst (own_props (htmlSpec String_type)))"
    by (simp add: own_props_def String_type_def)
  have c: "distinct (map fst ?cp)"
    by simp
  have pr: "ui_presentation rating_radio_field = JStr ''radio''"
    by (simp add: rating_radio_field_def)
  have ps: "ui_presentation rating_field \<noteq> JStr ''radio''"
    and pc: "ui_presentation rating_field \<noteq> JStr ''checkbox''"
    by (simp_all add: rating_field_def)
  note i = merged_options_in_rendered_controls [OF h c, where field = zip_field
      and defaultValue = "JStr ''abc''" and p = "[]" and key = "''type''"]
  note r = merged_options_in_rendered_controls [OF h c, where field = rating_radio_field
      and defaultValue = "JNum 1" and p = "[]"]
  note s = merged_options_in_rendered_controls [OF h c, where field = rating_field
      and defaultValue = "JNum 1" and p = "[]"]
  have i1: "fst (input_getHtml String_type zip_field ?cp (JStr ''abc'') [])
      = ''<input''
        @ concat (map (\<lambda>a. '' '' @ attribute_text a)
            (omit (input_mergedProps String_type ?cp (JStr ''abc'')) (Some ''elementName'')))
        @ '' '' @ (if isRequired zip_field then required_marker @ '' '' else [])
        @ ''name=\"'' @ [] @ name zip_field @ ''\" />''"
    by (rule i [THEN conjunct1])
  have i1v: \<open>''<input''
        @ concat (map (\<lambda>a. '' '' @ attribute_text a)
            (omit (input_mergedProps String_type ?cp (JStr ''abc'')) (Some ''elementName'')))
        @ '' '' @ (if isRequired zip_field then required_marker @ '' '' else [])
        @ ''name="'' @ [] @ name zip_field @ ''" />''
      = ''<input type="password" size="8" value="abc" name="zip" />''\<close>
    by code_simp
  have i2: "map_of (input_mergedProps String_type ?cp (JStr ''abc'')) ''type''
      = Some (JStr ''password'')"
    using i by simp
  have r1: "enum_getHtml String_type rating_radio_field ?cp (JNum 1) []
      = Inr (concat (map (\<lambda>ev.
               radio_input rating_radio_field (enum_mergedProps String_type ?cp) (JNum 1) [] ev
                 @ ''&nbsp;'' @ ev_label ev @ ''<br/>\<newline>'')
             (forEach_enumValues (type_enumValues (ftype rating_radio_field)))))"
    using r pr by blast
  have r1v: \<open>(Inr (concat (map (\<lambda>ev.
               radio_input rating_radio_field (enum_mergedProps String_type ?cp) (JNum 1) [] ev
                 @ ''&nbsp;'' @ ev_label ev @ ''<br/>\<newline>'')
             (forEach_enumValues (type_enumValues (ftype rating_radio_field))))) :: error + string)
      = Inr (''<input type="radio" size="8" checked="true" name="rating" value="1" />''
              @ ''&nbsp;One<br/>\<newline>''
              @ ''<input type="radio" size="8" name="rating" value="2" />''
              @ ''&nbsp;Two<br/>\<newline>'')\<close>
    by code_simp
  have s1: "enum_getHtml String_type rating_field ?cp (JNum 1) []
      = Inr (getEnumAsSelect rating_field [] (JNum 1) [])"
    using s ps pc by blast
  have s1v: \<open>(Inr (getEnumAsSelect rating_field [] (JNum 1) []) :: error + string)
      = Inr (''<select size="1" name="rating" >\<newline>''
              @ ''  <option value="1" >One</option>\<newline>''
              @ ''  <option value="2" >Two</option>\<newline>''
              @ ''</select>\<newline>'')\<close>
    by code_simp
  show ?thesis
    using h c i1 [unfolded i1v] i2 pr r1 [unfolded r1v] ps pc s1 [unfolded s1v]
    by (intro conjI)
qed

text \<open>
  Claim C9 as stated fails for the name \<^verbatim>\<open>value\<close>: the input behaviour called with
  the option \<^verbatim>\<open>value: 'C'\<close> and the default value \<^verbatim>\<open>'D'\<close>, on a type whose
  \<^verbatim>\<open>htmlSpec\<close> also declares \<^verbatim>\<open>value\<close>, renders \<^verbatim>\<open>value="D"\<close>: the caller's option
  does not win.
\<close>

theorem caller_value_option_is_overridden:
  \<open>map_of (own_props (htmlSpec Preset_type)) ''value'' = Some (JStr ''T'')
   \<and> map_of [(''value'', JStr ''C'')] ''value'' = Some (JStr ''C'')
   \<and> map_of (input_mergedProps Preset_type [(''value'', JStr ''C'')] (JStr ''D'')) ''value''
       = Some (JStr ''D'')
   \<and> fst (input_getHtml Preset_type zip_field [(''value'', JStr ''C'')] (JStr ''D'') [])
       = ''<input type="text" value="D" name="zip" />''\<close>
  by code_simp

text \<open>
  Claim C10 (no side effects).  The input behaviour assigns the default value to the
  \<^verbatim>\<open>value\<close> property of the \<^verbatim>\<open>controlProps\<close> object it was given: called with an
  empty options object and the default value \<^verbatim>\<open>'abc'\<close>, it leaves the caller's object
  with a \<^verbatim>\<open>value\<close> property.
\<close>

theorem input_behavior_modifies_controlProps:
  "snd (input_getHtml String_type zip_field [] (JStr ''abc'') []) = [(''value'', JStr ''abc'')]
   \<and> snd (input_getHtml String_type zip_field [] (JStr ''abc'') []) \<noteq> []"
  by code_simp

end
